theory Spec2Isabelle
  imports Main "HOL-Library.Sublist"
begin

section \<open>JavaScript values used by the session layer\<close>

text \<open>
  A value thrown in JavaScript is either an \<open>Error\<close> object carrying a message or some
  other value. The services format it with
  \<^verbatim>\<open>error instanceof Error ? error.message : String(error)\<close>.
\<close>

datatype js_error = Error string | Thrown string

fun error_text :: "js_error \<Rightarrow> string" where
  "error_text (Error m) = m"
| "error_text (Thrown s) = s"

text \<open>Decimal rendering of a number, as a template literal does for an HTTP status.\<close>

definition digit_char :: "nat \<Rightarrow> char" where
  "digit_char d = ''0123456789'' ! d"

fun show_nat :: "nat \<Rightarrow> string" where
  "show_nat n = (if n < 10 then [digit_char n] else show_nat (n div 10) @ [digit_char (n mod 10)])"

declare show_nat.simps [simp del]

section \<open>The service: \<open>CodeIndicesService\<close>\<close>

text \<open>
  \<open>fetch\<close> either rejects (network failure) or resolves to a response with a status;
  reading the body with \<open>response.json()\<close> either rejects or yields the decoded value.
\<close>

datatype 'a fetch_outcome = Rejected js_error | Response nat "js_error + 'a"

definition response_ok :: "nat \<Rightarrow> bool" where
  "response_ok status = (200 \<le> status \<and> status \<le> 299)"

record IndexingStats =
  total_files :: "int option"
  indexed_files :: "int option"
  skipped_files :: "int option"
  binary_files :: "int option"
  by_language :: "(string \<times> int) list option"

record IndexingStatus =
  is_indexing :: bool
  progress :: int
  message :: string
  stats :: IndexingStats
  error :: "string option"

record LLMResponse =
  success :: bool
  response :: string
  model :: "string option"
  relevant_files :: "string list option"
  llm_error :: "string option"

definition empty_stats :: IndexingStats where
  "empty_stats = \<lparr>total_files = None, indexed_files = None, skipped_files = None,
     binary_files = None, by_language = None\<rparr>"

text \<open>The body of the \<open>try\<close> block shared by the service calls: it throws on a rejected
  fetch, on a status outside 200..299 and on a body that cannot be read.\<close>

definition fetch_json :: "'a fetch_outcome \<Rightarrow> js_error + 'a" where
  "fetch_json r =
     (case r of
        Rejected e \<Rightarrow> Inl e
      | Response status body \<Rightarrow>
          if \<not> response_ok status then Inl (Error (''HTTP error '' @ show_nat status))
          else body)"

text \<open>\<open>getIndexingStatus\<close>: the \<open>catch\<close> turns every throw into a fallback status. The
  result is the promise's outcome: \<open>Inl\<close> would be a rejection.\<close>

definition getIndexingStatus :: "IndexingStatus fetch_outcome \<Rightarrow> js_error + IndexingStatus" where
  "getIndexingStatus r =
     (case fetch_json r of
        Inr s \<Rightarrow> Inr s
      | Inl e \<Rightarrow> Inr \<lparr>is_indexing = False, progress = 0,
                       message = ''Failed to get indexing status: '' @ error_text e,
                       stats = empty_stats, error = Some (error_text e)\<rparr>)"

text \<open>
  \<open>queryCode(query, stream)\<close>. Without \<open>stream\<close> the promise resolves to the decoded
  JSON body, which the caller reads as an \<open>LLMResponse\<close> after testing that it is an
  object; with \<open>stream\<close> it resolves to \<open>response.body\<close>, a stream of reads that ends or
  fails, or \<open>null\<close>. In both modes the \<open>catch\<close> resolves to the same fallback object.
\<close>

datatype reply = Reply LLMResponse | NonObject

datatype body = Stream "string list" "js_error option" | NullBody

datatype stream_result = GotBody body | GotFallback LLMResponse

definition fallback_response :: "js_error \<Rightarrow> LLMResponse" where
  "fallback_response e = \<lparr>success = False, response = '''', model = None,
     relevant_files = None, llm_error = Some (error_text e)\<rparr>"

definition queryCode :: "reply fetch_outcome \<Rightarrow> js_error + reply" where
  "queryCode r =
     (case fetch_json r of
        Inr v \<Rightarrow> Inr v
      | Inl e \<Rightarrow> Inr (Reply (fallback_response e)))"

definition queryCode_stream :: "body fetch_outcome \<Rightarrow> js_error + stream_result" where
  "queryCode_stream r =
     (case fetch_json r of
        Inr b \<Rightarrow> Inr (GotBody b)
      | Inl e \<Rightarrow> Inr (GotFallback (fallback_response e)))"

text \<open>A transport failure: the fetch rejects, the status is not ok, or the body is unreadable.\<close>

definition transport_failure :: "'a fetch_outcome \<Rightarrow> bool" where
  "transport_failure r = (case fetch_json r of Inl _ \<Rightarrow> True | Inr _ \<Rightarrow> False)"

definition failure_text :: "'a fetch_outcome \<Rightarrow> string" where
  "failure_text r = (case fetch_json r of Inl e \<Rightarrow> error_text e | Inr _ \<Rightarrow> '''')"

text \<open>The file tree (\<open>FileExplorer\<close>): a file or a directory of named children.\<close>

datatype FileTreeNode = FileNode string string | DirectoryNode "(string \<times> FileTreeNode) list"

text \<open>\<open>FileStructure\<close>; its \<open>success\<close> and \<open>error\<close> fields carry a prefix here, since
  record fields share one name space.\<close>

record FileStructure =
  fs_success :: bool
  root :: "(string \<times> FileTreeNode) list"
  fs_error :: "string option"

definition getFileStructure :: "FileStructure fetch_outcome \<Rightarrow> js_error + FileStructure" where
  "getFileStructure r =
     (case fetch_json r of
        Inr v \<Rightarrow> Inr v
      | Inl e \<Rightarrow> Inr \<lparr>fs_success = False, root = [], fs_error = Some (error_text e)\<rparr>)"

section \<open>The status poller of the \<open>Index\<close> page\<close>

text \<open>
  The page state the polling effect touches, with the requests it issues and the statuses it
  publishes through \<open>setIndexingStatus\<close> recorded oldest first. \<open>polling\<close> says that the
  interval created by \<open>setInterval\<close> has not been cleared. The callback is asynchronous
  and the interval does not wait for it: \<open>awaiting_status\<close> counts the callbacks suspended
  at \<open>await getIndexingStatus()\<close>, \<open>awaiting_structure\<close> those suspended at
  \<open>await getFileStructure()\<close>. The page has no phase variable: the chat becoming usable is
  \<open>selectedTab\<close> turning to \<open>ChatTab\<close>.
\<close>

datatype tab = StatusTab | FilesTab | ChatTab

datatype api_call = GetIndexingStatus | GetFileStructure

record index_state =
  indexingStatus :: IndexingStatus
  fileStructure :: FileStructure
  selectedTab :: tab
  startPolling :: bool
  polling :: bool
  awaiting_status :: nat
  awaiting_structure :: nat
  calls :: "api_call list"
  published :: "IndexingStatus list"
  console :: "string list"

definition initial_index_state :: index_state where
  "initial_index_state =
     \<lparr>indexingStatus = \<lparr>is_indexing = False, progress = 0,
          message = ''Waiting to start indexing...'', stats = empty_stats, error = None\<rparr>,
      fileStructure = \<lparr>fs_success = False, root = [], fs_error = None\<rparr>,
      selectedTab = StatusTab, startPolling = False, polling = False,
      awaiting_status = 0, awaiting_structure = 0,
      calls = [], published = [], console = []\<rparr>"

text \<open>\<open>handleSourceLoaded\<close>; the effect that depends on \<open>startPolling\<close> then creates the
  interval.\<close>

definition handleSourceLoaded :: "index_state \<Rightarrow> index_state" where
  "handleSourceLoaded st = st\<lparr>startPolling := True, selectedTab := StatusTab, polling := True\<rparr>"

text \<open>The effect's cleanup, \<open>clearInterval(pollInterval)\<close>.\<close>

definition stop_polling :: "index_state \<Rightarrow> index_state" where
  "stop_polling st = st\<lparr>polling := False\<rparr>"

text \<open>The completion signal the callback tests after each response.\<close>

definition complete :: "js_error + IndexingStatus \<Rightarrow> bool" where
  "complete sr = (case sr of Inl _ \<Rightarrow> False | Inr s \<Rightarrow> progress s = 100 \<and> \<not> is_indexing s)"

text \<open>
  The interval callback, cut at its two \<open>await\<close>s. The interval fires, unless it was
  cleared, and the callback issues the status request and suspends.
\<close>

definition interval_fires :: "index_state \<Rightarrow> index_state" where
  "interval_fires st =
     (if \<not> polling st then st
      else st\<lparr>calls := calls st @ [GetIndexingStatus],
              awaiting_status := Suc (awaiting_status st)\<rparr>)"

text \<open>A suspended callback gets the outcome of \<open>getIndexingStatus\<close>: it publishes the
  status and, on the completion signal, clears the interval, issues the file-tree request
  and suspends again. A rejection goes to the outer \<open>catch\<close>.\<close>

definition status_resolved :: "js_error + IndexingStatus \<Rightarrow> index_state \<Rightarrow> index_state" where
  "status_resolved sr st =
     (if awaiting_status st = 0 then st
      else
        let st1 = st\<lparr>awaiting_status := awaiting_status st - 1\<rparr> in
        case sr of
          Inl e \<Rightarrow> st1\<lparr>console := console st1 @ [''Error polling indexing status:'']\<rparr>
        | Inr status \<Rightarrow>
            let st2 = st1\<lparr>indexingStatus := status, published := published st1 @ [status]\<rparr> in
            if progress status = 100 \<and> \<not> is_indexing status then
              st2\<lparr>polling := False, calls := calls st2 @ [GetFileStructure],
                  awaiting_structure := Suc (awaiting_structure st2)\<rparr>
            else st2)"

text \<open>A callback suspended at the file-tree request gets its outcome, stores or logs it,
  and switches to the chat tab.\<close>

definition structure_resolved :: "js_error + FileStructure \<Rightarrow> index_state \<Rightarrow> index_state" where
  "structure_resolved fr st =
     (if awaiting_structure st = 0 then st
      else
        let st1 = st\<lparr>awaiting_structure := awaiting_structure st - 1\<rparr>;
            st2 = (case fr of
                     Inr structure \<Rightarrow> st1\<lparr>fileStructure := structure\<rparr>
                   | Inl e \<Rightarrow> st1\<lparr>console := console st1 @ [''Error loading file structure:'']\<rparr>)
        in st2\<lparr>selectedTab := ChatTab\<rparr>)"

text \<open>What happens to the page while it polls, in any order: the timer fires, a status
  request is answered, a file-tree request is answered. An answer with no callback waiting
  for it does not occur and changes nothing.\<close>

datatype page_event = Tick | StatusResolved "js_error + IndexingStatus"
  | StructureResolved "js_error + FileStructure"

fun page_step :: "page_event \<Rightarrow> index_state \<Rightarrow> index_state" where
  "page_step Tick st = interval_fires st"
| "page_step (StatusResolved sr) st = status_resolved sr st"
| "page_step (StructureResolved fr) st = structure_resolved fr st"

fun run_page :: "page_event list \<Rightarrow> index_state \<Rightarrow> index_state" where
  "run_page [] st = st"
| "run_page (ev # evs) st = run_page evs (page_step ev st)"

text \<open>The events of one callback that runs from its tick to its end with nothing in
  between, and the page after it.\<close>

definition callback_events :: "js_error + IndexingStatus \<Rightarrow> js_error + FileStructure \<Rightarrow> page_event list" where
  "callback_events sr fr =
     Tick # StatusResolved sr # (if complete sr then [StructureResolved fr] else [])"

definition poll_tick ::
  "js_error + IndexingStatus \<Rightarrow> js_error + FileStructure \<Rightarrow> index_state \<Rightarrow> index_state" where
  "poll_tick sr fr st = run_page (callback_events sr fr) st"

text \<open>The schedule in which every response arrives before the next tick.\<close>

fun in_turn :: "((js_error + IndexingStatus) \<times> (js_error + FileStructure)) list \<Rightarrow> page_event list" where
  "in_turn [] = []"
| "in_turn (r # rs) = callback_events (fst r) (snd r) @ in_turn rs"




fun statuses :: "((js_error + IndexingStatus) \<times> 'b) list \<Rightarrow> IndexingStatus list" where
  "statuses [] = []"
| "statuses (r # rs) = (case fst r of Inl _ \<Rightarrow> statuses rs | Inr s \<Rightarrow> s # statuses rs)"


text \<open>Sample responses.\<close>

definition status40 :: IndexingStatus where
  "status40 = \<lparr>is_indexing = True, progress = 40, message = ''Indexing'', stats = empty_stats,
     error = None\<rparr>"


definition tree0 :: FileStructure where
  "tree0 = \<lparr>fs_success = True, root = [(''a.ts'', FileNode ''typescript'' ''a.ts'')], fs_error = None\<rparr>"


section \<open>JSON values and the JavaScript operations applied to them\<close>

text \<open>
  The value \<open>JSON.parse\<close> returns. Numbers are integers here; an object keeps its members
  in textual order.
\<close>

datatype json = JNull | JBool bool | JNum int | JStr string | JArr "json list"
  | JObj "(string \<times> json) list"

text \<open>Reading a property \<open>data.k\<close> of a value that is not \<open>null\<close>, for the keys the chat
  reads (\<open>chunk\<close>, \<open>error\<close>, \<open>done\<close>, \<open>relevant_files\<close>): an object yields its last member
  of that name, anything else \<open>undefined\<close> (\<open>None\<close>). On \<open>null\<close> the read throws a
  \<open>TypeError\<close>, which the callers test for first.\<close>

fun get_prop :: "json \<Rightarrow> string \<Rightarrow> json option" where
  "get_prop (JObj kvs) k = map_of (rev kvs) k"
| "get_prop v k = None"

text \<open>Truthiness, as tested by \<open>if (data.chunk)\<close>.\<close>

fun truthy :: "json option \<Rightarrow> bool" where
  "truthy None = False"
| "truthy (Some JNull) = False"
| "truthy (Some (JBool b)) = b"
| "truthy (Some (JNum n)) = (n \<noteq> 0)"
| "truthy (Some (JStr s)) = (s \<noteq> [])"
| "truthy (Some (JArr xs)) = True"
| "truthy (Some (JObj kvs)) = True"

definition show_int :: "int \<Rightarrow> string" where
  "show_int n = (if n < 0 then ''-'' @ show_nat (nat (- n)) else show_nat (nat n))"

fun join_comma :: "string list \<Rightarrow> string" where
  "join_comma [] = []"
| "join_comma [x] = x"
| "join_comma (x # y # ys) = x @ '','' @ join_comma (y # ys)"

text \<open>\<open>String(v)\<close>, the conversion applied by \<open>responseText += data.chunk\<close> and by
  \<open>new Error(data.error)\<close>.\<close>

fun js_string :: "json \<Rightarrow> string" where
  "js_string JNull = ''null''"
| "js_string (JBool b) = (if b then ''true'' else ''false'')"
| "js_string (JNum n) = show_int n"
| "js_string (JStr s) = s"
| "js_string (JArr xs) = join_comma (map (\<lambda>x. if x = JNull then [] else js_string x) xs)"
| "js_string (JObj kvs) = ''[object Object]''"

fun js_text :: "json option \<Rightarrow> string" where
  "js_text None = ''undefined''"
| "js_text (Some v) = js_string v"

text \<open>
  Text is held as its UTF-8 bytes. \<open>String.prototype.trim\<close> removes white space and line
  terminators from both ends: the code points U+0009 to U+000D, U+0020, U+00A0, U+1680,
  U+2000 to U+200A, U+2028, U+2029, U+202F, U+205F, U+3000 and U+FEFF, listed here by their
  encodings.
\<close>

definition js_whitespace :: "string list" where
  "js_whitespace =
     [[CHR 0x09], [CHR 0x0A], [CHR 0x0B], [CHR 0x0C], [CHR 0x0D], [CHR 0x20],
      [CHR 0xC2, CHR 0xA0], [CHR 0xE1, CHR 0x9A, CHR 0x80],
      [CHR 0xE2, CHR 0x80, CHR 0x80], [CHR 0xE2, CHR 0x80, CHR 0x81],
      [CHR 0xE2, CHR 0x80, CHR 0x82], [CHR 0xE2, CHR 0x80, CHR 0x83],
      [CHR 0xE2, CHR 0x80, CHR 0x84], [CHR 0xE2, CHR 0x80, CHR 0x85],
      [CHR 0xE2, CHR 0x80, CHR 0x86], [CHR 0xE2, CHR 0x80, CHR 0x87],
      [CHR 0xE2, CHR 0x80, CHR 0x88], [CHR 0xE2, CHR 0x80, CHR 0x89],
      [CHR 0xE2, CHR 0x80, CHR 0x8A], [CHR 0xE2, CHR 0x80, CHR 0xA8],
      [CHR 0xE2, CHR 0x80, CHR 0xA9], [CHR 0xE2, CHR 0x80, CHR 0xAF],
      [CHR 0xE2, CHR 0x81, CHR 0x9F], [CHR 0xE3, CHR 0x80, CHR 0x80],
      [CHR 0xEF, CHR 0xBB, CHR 0xBF]]"

text \<open>Removing from the front every leading occurrence of one of the given byte
  sequences.\<close>

fun strip_leading :: "string list \<Rightarrow> string \<Rightarrow> string" where
  "strip_leading ws [] = []"
| "strip_leading ws (c # cs) =
     (case find (\<lambda>w. w \<noteq> [] \<and> prefix w (c # cs)) ws of
        None \<Rightarrow> c # cs
      | Some w \<Rightarrow> strip_leading ws (drop (length w - 1) cs))"

definition js_trim :: "string \<Rightarrow> string" where
  "js_trim s =
     rev (strip_leading (map rev js_whitespace) (rev (strip_leading js_whitespace s)))"

subsection \<open>A model of \<open>JSON.parse\<close>\<close>

text \<open>
  \<open>JSON.parse\<close> belongs to the runtime, not to the repository. The chat functions below
  take the parser as a parameter \<open>parse\<close>, with \<open>None\<close> for a thrown \<open>SyntaxError\<close>, and
  the general theorems hold for every parser. \<open>JSON_parse\<close> is the instance used to
  evaluate concrete frames: a recursive-descent parser for JSON texts built from objects,
  arrays, strings with the single-character escapes, integers and the three literals.
  Fractions, exponents and \<open>\u\<close> escapes are outside it (it answers \<open>None\<close> there); no
  statement below evaluates it on such a text.
\<close>

definition json_ws :: "char \<Rightarrow> bool" where
  "json_ws c = (c = CHR '' '' \<or> c = CHR ''\<newline>'' \<or> c = CHR 0x0D \<or> c = CHR 0x09)"

definition skip_ws :: "string \<Rightarrow> string" where
  "skip_ws s = dropWhile json_ws s"

definition is_digit :: "char \<Rightarrow> bool" where
  "is_digit c = (48 \<le> (of_char c :: nat) \<and> (of_char c :: nat) \<le> 57)"

definition digit_val :: "char \<Rightarrow> int" where
  "digit_val c = int (of_char c) - 48"

definition unescape :: "char \<Rightarrow> char option" where
  "unescape e =
     (if e = CHR 0x22 \<or> e = CHR 0x5C \<or> e = CHR ''/'' then Some e
      else if e = CHR ''n'' then Some (CHR ''\<newline>'')
      else if e = CHR ''t'' then Some (CHR 0x09)
      else if e = CHR ''r'' then Some (CHR 0x0D)
      else if e = CHR ''b'' then Some (CHR 0x08)
      else if e = CHR ''f'' then Some (CHR 0x0C)
      else None)"

text \<open>The rest of a string after its opening quote: the text and what follows the closing
  quote.\<close>

fun parse_string_body :: "string \<Rightarrow> string \<Rightarrow> (string \<times> string) option" where
  "parse_string_body acc [] = None"
| "parse_string_body acc (c # cs) =
     (if c = CHR 0x22 then Some (rev acc, cs)
      else if c = CHR 0x5C then
        (case cs of
           [] \<Rightarrow> None
         | e # cs' \<Rightarrow>
             (case unescape e of
                None \<Rightarrow> None
              | Some d \<Rightarrow> parse_string_body (d # acc) cs'))
      else if (of_char c :: nat) < 32 then None
      else parse_string_body (c # acc) cs)"

definition parse_number :: "string \<Rightarrow> (json \<times> string) option" where
  "parse_number s =
     (let neg = (case s of [] \<Rightarrow> False | c # _ \<Rightarrow> c = CHR ''-'');
          body = (if neg then tl s else s);
          ds = takeWhile is_digit body;
          rest = dropWhile is_digit body;
          n = foldl (\<lambda>a d. 10 * a + digit_val d) 0 ds
      in if ds = [] then None
         else if 1 < length ds \<and> hd ds = CHR ''0'' then None
         else if (case rest of [] \<Rightarrow> False
                  | c # _ \<Rightarrow> c = CHR ''.'' \<or> c = CHR ''e'' \<or> c = CHR ''E'') then None
         else Some (JNum (if neg then - n else n), rest))"

text \<open>The first argument bounds the number of nested calls; twice the length of the text
  is enough, since every second call consumes a character.\<close>

fun parse_value :: "nat \<Rightarrow> string \<Rightarrow> (json \<times> string) option"
  and parse_elems :: "nat \<Rightarrow> json list \<Rightarrow> string \<Rightarrow> (json \<times> string) option"
  and parse_members :: "nat \<Rightarrow> (string \<times> json) list \<Rightarrow> string \<Rightarrow> (json \<times> string) option" where
  "parse_value 0 s = None"
| "parse_value (Suc n) s =
     (case skip_ws s of
        [] \<Rightarrow> None
      | c # cs \<Rightarrow>
          if c = CHR ''{'' then
            (case skip_ws cs of
               [] \<Rightarrow> None
             | d # ds \<Rightarrow> if d = CHR ''}'' then Some (JObj [], ds) else parse_members n [] (d # ds))
          else if c = CHR ''['' then
            (case skip_ws cs of
               [] \<Rightarrow> None
             | d # ds \<Rightarrow> if d = CHR '']'' then Some (JArr [], ds) else parse_elems n [] (d # ds))
          else if c = CHR 0x22 then
            (case parse_string_body [] cs of
               None \<Rightarrow> None
             | Some (t, r) \<Rightarrow> Some (JStr t, r))
          else if prefix ''true'' (c # cs) then Some (JBool True, drop 4 (c # cs))
          else if prefix ''false'' (c # cs) then Some (JBool False, drop 5 (c # cs))
          else if prefix ''null'' (c # cs) then Some (JNull, drop 4 (c # cs))
          else parse_number (c # cs))"
| "parse_elems 0 acc s = None"
| "parse_elems (Suc n) acc s =
     (case parse_value n s of
        None \<Rightarrow> None
      | Some (v, r) \<Rightarrow>
          (case skip_ws r of
             [] \<Rightarrow> None
           | c # cs \<Rightarrow>
               if c = CHR '','' then parse_elems n (v # acc) cs
               else if c = CHR '']'' then Some (JArr (rev (v # acc)), cs)
               else None))"
| "parse_members 0 acc s = None"
| "parse_members (Suc n) acc s =
     (case skip_ws s of
        [] \<Rightarrow> None
      | c # cs \<Rightarrow>
          if c \<noteq> CHR 0x22 then None
          else
            (case parse_string_body [] cs of
               None \<Rightarrow> None
             | Some (k, r) \<Rightarrow>
                 (case skip_ws r of
                    [] \<Rightarrow> None
                  | d # ds \<Rightarrow>
                      if d \<noteq> CHR '':'' then None
                      else
                        (case parse_value n ds of
                           None \<Rightarrow> None
                         | Some (v, r2) \<Rightarrow>
                             (case skip_ws r2 of
                                [] \<Rightarrow> None
                              | e # es \<Rightarrow>
                                  if e = CHR '','' then parse_members n ((k, v) # acc) es
                                  else if e = CHR ''}'' then Some (JObj (rev ((k, v) # acc)), es)
                                  else None)))))"

definition JSON_parse :: "string \<Rightarrow> json option" where
  "JSON_parse s =
     (case parse_value (2 * length s + 2) s of
        None \<Rightarrow> None
      | Some (v, r) \<Rightarrow> if skip_ws r = [] then Some v else None)"

subsection \<open>Splitting a read into frames\<close>

definition LF :: char where
  "LF = CHR ''\<newline>''"

fun add_head :: "char \<Rightarrow> string list \<Rightarrow> string list" where
  "add_head c [] = [[c]]"
| "add_head c (p # ps) = (c # p) # ps"

text \<open>\<open>chunk.split('\n\n')\<close>: the pieces between the non-overlapping occurrences of two
  line feeds, found left to right; there is always at least one piece.\<close>

fun js_split :: "string \<Rightarrow> string list" where
  "js_split [] = [[]]"
| "js_split [c] = [[c]]"
| "js_split (c # d # cs) =
     (if c = LF \<and> d = LF then [] # js_split cs else add_head c (js_split (d # cs)))"

section \<open>The chat component reading a fetch stream\<close>

text \<open>
  A chat message. The streaming component's \<open>ChatMessageType\<close> and the \<open>ChatMessage\<close>
  interface of \<open>types/chat.ts\<close> have the same fields, except that the latter calls the
  role \<open>type\<close>; \<open>id\<close> is \<open>msg_id\<close> here. An optional field that is absent is \<open>None\<close>.
\<close>

datatype role = User | Assistant

record ChatMessage =
  msg_id :: string
  content :: string
  role :: role
  timestamp :: nat
  isLoading :: "bool option"
  relevantFiles :: "string list option"

text \<open>
  The component state (\<open>messages\<close>, \<open>input\<close>, \<open>isLoading\<close>), with what it writes to the
  console, the toasts it raises and the \<open>queryCode\<close> calls it makes (query text and
  \<open>stream\<close> flag), each oldest first.
\<close>

record chat_state =
  messages :: "ChatMessage list"
  input :: string
  chat_isLoading :: bool
  chat_console :: "string list"
  toasts :: "(string \<times> string) list"
  queries :: "(string \<times> bool) list"

definition initial_chat_state :: chat_state where
  "initial_chat_state = \<lparr>messages = [], input = [], chat_isLoading = False, chat_console = [],
     toasts = [], queries = []\<rparr>"

text \<open>The three state updaters of \<open>handleSendMessage\<close>; each maps over the list and
  changes the messages whose id is the placeholder's.\<close>

definition set_streamed :: "string \<Rightarrow> string \<Rightarrow> ChatMessage list \<Rightarrow> ChatMessage list" where
  "set_streamed aid responseText ms =
     map (\<lambda>msg. if msg_id msg = aid then msg\<lparr>content := responseText, isLoading := Some False\<rparr>
                 else msg) ms"

definition set_relevant :: "string \<Rightarrow> string list \<Rightarrow> ChatMessage list \<Rightarrow> ChatMessage list" where
  "set_relevant aid files ms =
     map (\<lambda>msg. if msg_id msg = aid then msg\<lparr>relevantFiles := Some files\<rparr> else msg) ms"

definition set_failed :: "string \<Rightarrow> js_error \<Rightarrow> ChatMessage list \<Rightarrow> ChatMessage list" where
  "set_failed aid e ms =
     map (\<lambda>msg. if msg_id msg = aid
                 then msg\<lparr>content := ''Sorry, I couldn't process your request. '' @
                            (case e of Error m \<Rightarrow> m | Thrown _ \<Rightarrow> ''An unknown error occurred.''),
                          isLoading := Some False\<rparr>
                 else msg) ms"

definition log_sse :: "string \<Rightarrow> chat_state \<Rightarrow> chat_state" where
  "log_sse what st = st\<lparr>chat_console := chat_console st @ [''Error parsing SSE data: '' @ what]\<rparr>"

text \<open>
  The body of the inner \<open>try\<close> once the frame has parsed, on the state and the local
  \<open>responseText\<close>. Reading \<open>data.chunk\<close> of \<open>null\<close> throws; so does the \<open>error\<close> branch;
  both throws land in the inner \<open>catch\<close>, which logs and goes on. The \<open>done\<close> branch is
  empty.
\<close>

definition process_data :: "string \<Rightarrow> json \<Rightarrow> chat_state \<times> string \<Rightarrow> chat_state \<times> string" where
  "process_data aid data acc =
     (case acc of (st, responseText) \<Rightarrow>
        if data = JNull then (log_sse ''TypeError'' st, responseText)
        else if truthy (get_prop data ''chunk'') then
          (let responseText' = responseText @ js_text (get_prop data ''chunk'')
           in (st\<lparr>messages := set_streamed aid responseText' (messages st)\<rparr>, responseText'))
        else if truthy (get_prop data ''error'') then
          (log_sse (js_text (get_prop data ''error'')) st, responseText)
        else if truthy (get_prop data ''done'') then (st, responseText)
        else (st, responseText))"

text \<open>One piece of a read: the body of the \<open>for\<close> loop.\<close>

definition process_line ::
  "(string \<Rightarrow> json option) \<Rightarrow> string \<Rightarrow> string \<Rightarrow> chat_state \<times> string \<Rightarrow> chat_state \<times> string" where
  "process_line parse aid line acc =
     (if prefix ''data: '' line then
        (case parse (drop 6 line) of
           None \<Rightarrow> (log_sse ''SyntaxError'' (fst acc), snd acc)
         | Some data \<Rightarrow> process_data aid data acc)
      else acc)"

fun process_lines ::
  "(string \<Rightarrow> json option) \<Rightarrow> string \<Rightarrow> string list \<Rightarrow> chat_state \<times> string \<Rightarrow> chat_state \<times> string" where
  "process_lines parse aid [] acc = acc"
| "process_lines parse aid (line # lines) acc =
     process_lines parse aid lines (process_line parse aid line acc)"

text \<open>The \<open>while\<close> loop over the reads of the stream; each read is decoded, split and
  handled on its own.\<close>

fun process_reads ::
  "(string \<Rightarrow> json option) \<Rightarrow> string \<Rightarrow> string list \<Rightarrow> chat_state \<times> string \<Rightarrow> chat_state \<times> string" where
  "process_reads parse aid [] acc = acc"
| "process_reads parse aid (chunk # reads) acc =
     process_reads parse aid reads (process_lines parse aid (js_split chunk) acc)"

text \<open>What one call of \<open>handleSendMessage\<close> takes from outside: the two ids from
  \<open>uuidv4\<close>, the two dates, and the outcomes of the two requests.\<close>

record environment =
  user_id :: string
  assistant_id :: string
  user_time :: nat
  assistant_time :: nat
  stream_fetch :: "body fetch_outcome"
  followup_fetch :: "reply fetch_outcome"

text \<open>The outer \<open>try\<close> block: the thrown value, if any, and the state reached.\<close>

definition try_block ::
  "(string \<Rightarrow> json option) \<Rightarrow> environment \<Rightarrow> string \<Rightarrow> chat_state \<Rightarrow> js_error option \<times> chat_state" where
  "try_block parse env query st =
     (let st1 = st\<lparr>queries := queries st @ [(query, True)]\<rparr> in
      case queryCode_stream (stream_fetch env) of
        Inl e \<Rightarrow> (Some e, st1)
      | Inr (GotBody NullBody) \<Rightarrow> (Some (Error ''Failed to get response stream''), st1)
      | Inr (GotFallback r) \<Rightarrow> (Some (Error ''stream.getReader is not a function''), st1)
      | Inr (GotBody (Stream reads failure)) \<Rightarrow>
          (let st2 = fst (process_reads parse (assistant_id env) reads (st1, [])) in
           case failure of
             Some e \<Rightarrow> (Some e, st2)
           | None \<Rightarrow>
               (let st3 = st2\<lparr>queries := queries st2 @ [(query, False)]\<rparr> in
                case queryCode (followup_fetch env) of
                  Inl e \<Rightarrow> (Some e, st3)
                | Inr NonObject \<Rightarrow> (Some (Error ''Invalid response format''), st3)
                | Inr (Reply r) \<Rightarrow>
                    (case relevant_files r of
                       None \<Rightarrow> (None, st3)
                     | Some files \<Rightarrow>
                         if success r
                         then (None, st3\<lparr>messages := set_relevant (assistant_id env) files (messages st3)\<rparr>)
                         else (None, st3)))))"

definition catch_block :: "string \<Rightarrow> js_error \<Rightarrow> chat_state \<Rightarrow> chat_state" where
  "catch_block aid e st =
     st\<lparr>chat_console := chat_console st @ [''Error querying code: '' @ error_text e],
        messages := set_failed aid e (messages st),
        toasts := toasts st @
          [(''Query Error'', case e of Error m \<Rightarrow> m | Thrown _ \<Rightarrow> ''Failed to query the codebase'')]\<rparr>"

definition handleSendMessage ::
  "(string \<Rightarrow> json option) \<Rightarrow> environment \<Rightarrow> chat_state \<Rightarrow> chat_state" where
  "handleSendMessage parse env st =
     (if js_trim (input st) = [] then st
      else
        let userMessage = \<lparr>msg_id = user_id env, content = input st, role = User,
              timestamp = user_time env, isLoading = None, relevantFiles = None\<rparr>;
            assistantLoadingMessage = \<lparr>msg_id = assistant_id env, content = [], role = Assistant,
              timestamp = assistant_time env, isLoading = Some True, relevantFiles = None\<rparr>;
            st1 = st\<lparr>messages := messages st @ [userMessage, assistantLoadingMessage],
              input := [], chat_isLoading := True\<rparr>;
            tried = try_block parse env (input st) st1;
            st2 = (case fst tried of
                     None \<Rightarrow> snd tried
                   | Some e \<Rightarrow> catch_block (assistant_id env) e (snd tried))
        in st2\<lparr>chat_isLoading := False\<rparr>)"

text \<open>The message with a given id, when there is one.\<close>

definition turn :: "string \<Rightarrow> ChatMessage list \<Rightarrow> ChatMessage option" where
  "turn i ms = find (\<lambda>msg. msg_id msg = i) ms"

text \<open>Frames that fail to parse: the prefix is there and the payload is rejected by the
  parser.\<close>

definition malformed :: "(string \<Rightarrow> json option) \<Rightarrow> string \<Rightarrow> bool" where
  "malformed parse line = (prefix ''data: '' line \<and> parse (drop 6 line) = None)"

text \<open>A record of the stream as the backend writes it, and a read made of whole records.\<close>

definition record_text :: "string \<Rightarrow> string" where
  "record_text payload = ''data: '' @ payload @ [LF, LF]"

definition read_of :: "string list \<Rightarrow> string" where
  "read_of payloads = concat (map record_text payloads)"

text \<open>The content fragment a frame carries, if any: the test of the loop's prefix, parse
  and \<open>chunk\<close> branch, and the text that branch appends. The fragments of a sequence of
  frames, in order.\<close>

definition fragment_of :: "(string \<Rightarrow> json option) \<Rightarrow> string \<Rightarrow> string option" where
  "fragment_of parse line =
     (if prefix ''data: '' line then
        (case parse (drop 6 line) of
           None \<Rightarrow> None
         | Some data \<Rightarrow>
             if data \<noteq> JNull \<and> truthy (get_prop data ''chunk'')
             then Some (js_text (get_prop data ''chunk''))
             else None)
      else None)"

fun fragments :: "(string \<Rightarrow> json option) \<Rightarrow> string list \<Rightarrow> string list" where
  "fragments parse [] = []"
| "fragments parse (line # lines) =
     (case fragment_of parse line of
        None \<Rightarrow> fragments parse lines
      | Some f \<Rightarrow> f # fragments parse lines)"

text \<open>The payload of a content fragment without characters that need escaping.\<close>

definition render_chunk :: "string \<Rightarrow> string" where
  \<open>render_chunk c = ''{"chunk":"'' @ c @ ''"}''\<close>

text \<open>The assistant turns still shown as loading.\<close>

definition loading_turns :: "ChatMessage list \<Rightarrow> ChatMessage list" where
  "loading_turns ms = filter (\<lambda>msg. role msg = Assistant \<and> isLoading msg = Some True) ms"

text \<open>A sample call: the stream delivers the given reads and ends, and the follow-up
  query succeeds.\<close>

definition sample_env :: "string \<Rightarrow> string \<Rightarrow> string list \<Rightarrow> environment" where
  "sample_env uid aid reads =
     \<lparr>user_id = uid, assistant_id = aid, user_time = 1, assistant_time = 1,
      stream_fetch = Response 200 (Inr (Stream reads None)),
      followup_fetch = Response 200 (Inr (Reply \<lparr>success = True, response = ''ok'',
        model = None, relevant_files = None, llm_error = None\<rparr>))\<rparr>"

section \<open>The chat component reading an \<open>EventSource\<close>\<close>

text \<open>
  The state of the second chat component (\<open>components/CodeChat.tsx\<close>): its React state,
  the toasts and console lines it produces, and the event sources it has created, each with
  the query it was opened for and whether it is still open. \<open>es_uncaught\<close> records an
  exception that no handler catches.
\<close>

record es_state =
  es_messages :: "ChatMessage list"
  es_input :: string
  es_isLoading :: bool
  es_relevantFiles :: json
  es_toasts :: "(string \<times> string) list"
  es_console :: "string list"
  es_sources :: "(string \<times> bool) list"
  es_uncaught :: "string list"

definition initial_es_state :: es_state where
  "initial_es_state = \<lparr>es_messages = [], es_input = [], es_isLoading = False,
     es_relevantFiles = JObj [], es_toasts = [], es_console = [], es_sources = [],
     es_uncaught = []\<rparr>"

text \<open>\<open>handleSendMessage\<close>, given the two readings of \<open>Date.now()\<close> and the two dates.\<close>

definition es_handleSendMessage :: "nat \<Rightarrow> nat \<Rightarrow> nat \<Rightarrow> nat \<Rightarrow> es_state \<Rightarrow> es_state" where
  "es_handleSendMessage now1 date1 now2 date2 st =
     (if js_trim (es_input st) = [] \<or> es_isLoading st then st
      else
        st\<lparr>es_messages := (es_messages st @
               [\<lparr>msg_id = show_nat now1, content = es_input st, role = User,
                 timestamp = date1, isLoading = Some False, relevantFiles = None\<rparr>]) @
               [\<lparr>msg_id = show_nat (now2 + 1), content = [], role = Assistant,
                 timestamp = date2, isLoading = Some True, relevantFiles = None\<rparr>],
           es_isLoading := True,
           es_input := [],
           es_sources := es_sources st @ [(es_input st, True)]\<rparr>)"

text \<open>The updater of the \<open>chunk\<close> branch: it takes the last message of the list, whatever
  its id. On an empty list the read of \<open>lastMessage.type\<close> throws.\<close>

definition append_to_last :: "string \<Rightarrow> ChatMessage list \<Rightarrow> ChatMessage list option" where
  "append_to_last text ms =
     (if ms = [] then None
      else
        let lastMessage = last ms in
        if role lastMessage = Assistant
        then Some (butlast ms @ [lastMessage\<lparr>content := content lastMessage @ text,
                                             isLoading := Some False\<rparr>])
        else Some ms)"

definition es_parse_failed :: "es_state \<Rightarrow> es_state" where
  "es_parse_failed st =
     st\<lparr>es_console := es_console st @ [''Error parsing message:''],
        es_toasts := es_toasts st @ [(''Error'', ''Failed to parse server response'')]\<rparr>"

text \<open>\<open>eventSource.onmessage\<close>, given the text of \<open>event.data\<close>.\<close>

definition es_onmessage :: "(string \<Rightarrow> json option) \<Rightarrow> string \<Rightarrow> es_state \<Rightarrow> es_state" where
  "es_onmessage parse text st =
     (case parse text of
        None \<Rightarrow> es_parse_failed st
      | Some data \<Rightarrow>
          if data = JNull then es_parse_failed st
          else if truthy (get_prop data ''relevant_files'') then
            (case get_prop data ''relevant_files'' of
               Some v \<Rightarrow> st\<lparr>es_relevantFiles := v\<rparr>
             | None \<Rightarrow> st)
          else if truthy (get_prop data ''chunk'') then
            (case append_to_last (js_text (get_prop data ''chunk'')) (es_messages st) of
               Some ms \<Rightarrow> st\<lparr>es_messages := ms\<rparr>
             | None \<Rightarrow> st\<lparr>es_uncaught := es_uncaught st @ [''TypeError'']\<rparr>)
          else if truthy (get_prop data ''error'') then
            st\<lparr>es_toasts := es_toasts st @ [(''Error'', js_text (get_prop data ''error''))],
               es_isLoading := False\<rparr>
          else if truthy (get_prop data ''done'') then st\<lparr>es_isLoading := False\<rparr>
          else st)"

definition close_source :: "nat \<Rightarrow> es_state \<Rightarrow> es_state" where
  "close_source k st =
     (if k < length (es_sources st)
      then st\<lparr>es_sources := (es_sources st)[k := (fst (es_sources st ! k), False)]\<rparr>
      else st)"

text \<open>\<open>eventSource.onerror\<close> and the listener for the event named \<open>done\<close>, of source
  \<open>k\<close>.\<close>

definition es_onerror :: "nat \<Rightarrow> es_state \<Rightarrow> es_state" where
  "es_onerror k st =
     (let st1 = close_source k (st\<lparr>es_console := es_console st @ [''EventSource error:'']\<rparr>)
      in st1\<lparr>es_isLoading := False,
            es_toasts := es_toasts st1 @
              [(''Error'', ''Failed to get response from server. Please try again.'')]\<rparr>)"

definition es_ondone :: "nat \<Rightarrow> es_state \<Rightarrow> es_state" where
  "es_ondone k st = (close_source k st)\<lparr>es_isLoading := False\<rparr>"

definition source_open :: "nat \<Rightarrow> es_state \<Rightarrow> bool" where
  "source_open k st = (k < length (es_sources st) \<and> snd (es_sources st ! k))"

text \<open>
  What can happen to the component: the user edits the input (the field is disabled while
  \<open>isLoading\<close>), the user sends, and an open source delivers a message, an error or the
  event named \<open>done\<close>. A closed source delivers nothing.
\<close>

datatype es_event = Typed string | Send nat nat nat nat | Message nat string
  | SourceError nat | DoneEvent nat

fun es_step :: "(string \<Rightarrow> json option) \<Rightarrow> es_event \<Rightarrow> es_state \<Rightarrow> es_state" where
  "es_step parse (Typed s) st = (if es_isLoading st then st else st\<lparr>es_input := s\<rparr>)"
| "es_step parse (Send now1 date1 now2 date2) st = es_handleSendMessage now1 date1 now2 date2 st"
| "es_step parse (Message k text) st = (if source_open k st then es_onmessage parse text st else st)"
| "es_step parse (SourceError k) st = (if source_open k st then es_onerror k st else st)"
| "es_step parse (DoneEvent k) st = (if source_open k st then es_ondone k st else st)"

fun es_run :: "(string \<Rightarrow> json option) \<Rightarrow> es_event list \<Rightarrow> es_state \<Rightarrow> es_state" where
  "es_run parse [] st = st"
| "es_run parse (ev # evs) st = es_run parse evs (es_step parse ev st)"

text \<open>A conversation holding one exchange whose answer is still awaited.\<close>

definition sample_chat :: chat_state where
  "sample_chat =
     initial_chat_state\<lparr>messages :=
       [\<lparr>msg_id = ''u1'', content = ''q1'', role = User, timestamp = 1, isLoading = None,
          relevantFiles = None\<rparr>,
        \<lparr>msg_id = ''a1'', content = [], role = Assistant, timestamp = 1, isLoading = Some True,
          relevantFiles = None\<rparr>],
       chat_isLoading := True\<rparr>"

text \<open>A state with its console emptied, and a state with lines put in front of its console;
  they serve to compare two runs up to what was logged.\<close>

definition unlogged :: "chat_state \<Rightarrow> chat_state" where
  "unlogged st = st\<lparr>chat_console := []\<rparr>"

definition logged_before :: "string list \<Rightarrow> chat_state \<Rightarrow> chat_state" where
  "logged_before ls st = st\<lparr>chat_console := ls @ chat_console st\<rparr>"

definition es_quiet :: "es_state \<Rightarrow> es_state" where
  "es_quiet st = st\<lparr>es_console := [], es_toasts := []\<rparr>"

definition es_noted_before :: "string list \<Rightarrow> (string \<times> string) list \<Rightarrow> es_state \<Rightarrow> es_state" where
  "es_noted_before ls ts st = st\<lparr>es_console := ls @ es_console st, es_toasts := ts @ es_toasts st\<rparr>"

text \<open>The second component after one question was sent, and a stream with two frames that
  do not parse among two that do.\<close>

definition sample_es :: es_state where
  "sample_es = es_run JSON_parse [Typed ''q1'', Send 1000 1000 1000 1000] initial_es_state"

definition noisy_reads :: "string list" where
  \<open>noisy_reads = [''data: {oops\<newline>\<newline>data: {"chunk":"Hel"}\<newline>\<newline>'',
     ''data: <html>\<newline>\<newline>data: {"chunk":"lo"}\<newline>\<newline>'']\<close>

definition noisy_texts :: "string list" where
  \<open>noisy_texts = [''{oops'', ''{"chunk":"Hel"}'', ''<html>'', ''{"chunk":"lo"}'']\<close>

section \<open>Service calls never reject\<close>

lemma getIndexingStatus_total: "\<exists>s. getIndexingStatus r = Inr s"
  by (simp add: getIndexingStatus_def split: sum.splits)

lemma queryCode_total: "\<exists>v. queryCode r = Inr v"
  by (simp add: queryCode_def split: sum.splits)

lemma queryCode_stream_total: "\<exists>v. queryCode_stream r = Inr v"
  by (simp add: queryCode_stream_def split: sum.splits)

text \<open>
  C10. For every outcome of the underlying fetch, \<open>getIndexingStatus\<close> and the buffered
  \<open>queryCode\<close> resolve and never reject; on a transport or HTTP failure the former
  resolves to the fallback status (\<open>is_indexing\<close> false, \<open>progress\<close> 0, \<open>error\<close> set to
  the failure message) and the latter to a fallback object with \<open>success\<close> false.
\<close>

theorem service_calls_total:
  "(\<exists>s. getIndexingStatus r = Inr s \<and>
        (transport_failure r \<longrightarrow>
           \<not> is_indexing s \<and> progress s = 0 \<and> error s = Some (failure_text r))) \<and>
   (\<exists>v. queryCode q = Inr v \<and>
        (transport_failure q \<longrightarrow>
           (\<exists>f. v = Reply f \<and> \<not> success f \<and> llm_error f = Some (failure_text q))))"
  by (simp add: getIndexingStatus_def queryCode_def transport_failure_def failure_text_def
      fallback_response_def split: sum.splits)

theorem service_calls_total_witness:
  "transport_failure (Response 503 (Inl (Error ''Unexpected token'')) :: IndexingStatus fetch_outcome) \<and>
   transport_failure (Rejected (Error ''Failed to fetch'') :: reply fetch_outcome) \<and>
   (\<exists>s. getIndexingStatus (Response 503 (Inl (Error ''Unexpected token''))) = Inr s \<and>
        \<not> is_indexing s \<and> progress s = 0 \<and> error s = Some ''HTTP error 503'') \<and>
   (\<exists>f. queryCode (Rejected (Error ''Failed to fetch'')) = Inr (Reply f) \<and>
        \<not> success f \<and> llm_error f = Some ''Failed to fetch'')"
  using service_calls_total [of "Response 503 (Inl (Error ''Unexpected token''))"
      "Rejected (Error ''Failed to fetch'')"]
  by (auto simp: transport_failure_def failure_text_def fetch_json_def response_ok_def
      show_nat.simps digit_char_def)

section \<open>The poller stops on the completion signal only\<close>




lemma poll_tick_unfold:
  "polling st \<Longrightarrow>
   poll_tick sr fr st =
     (let st1 = st\<lparr>calls := calls st @ [GetIndexingStatus]\<rparr> in
      case sr of
        Inl e \<Rightarrow> st1\<lparr>console := console st1 @ [''Error polling indexing status:'']\<rparr>
      | Inr status \<Rightarrow>
          let st2 = st1\<lparr>indexingStatus := status, published := published st1 @ [status]\<rparr> in
          if progress status = 100 \<and> \<not> is_indexing status then
            let st3 = st2\<lparr>polling := False, calls := calls st2 @ [GetFileStructure]\<rparr>;
                st4 = (case fr of
                         Inr structure \<Rightarrow> st3\<lparr>fileStructure := structure\<rparr>
                       | Inl e \<Rightarrow> st3\<lparr>console := console st3 @ [''Error loading file structure:'']\<rparr>)
            in st4\<lparr>selectedTab := ChatTab\<rparr>
          else st2)"
  by (cases sr; cases fr)
    (simp_all add: poll_tick_def callback_events_def complete_def interval_fires_def
      status_resolved_def structure_resolved_def Let_def)



lemma poll_tick_pending:
  assumes "polling st" and "\<not> complete sr"
  shows "polling (poll_tick sr fr st)"
    and "calls (poll_tick sr fr st) = calls st @ [GetIndexingStatus]"
    and "published (poll_tick sr fr st) = published st @ statuses [(sr, fr)]"
    and "selectedTab (poll_tick sr fr st) = selectedTab st"
  using assms by (auto simp: poll_tick_unfold complete_def Let_def split: sum.splits)

lemma poll_tick_complete:
  assumes "polling st" and "complete sr"
  shows "\<not> polling (poll_tick sr fr st)"
    and "calls (poll_tick sr fr st) = calls st @ [GetIndexingStatus, GetFileStructure]"
    and "published (poll_tick sr fr st) = published st @ statuses [(sr, fr)]"
    and "selectedTab (poll_tick sr fr st) = ChatTab"
  using assms by (auto simp: poll_tick_unfold complete_def Let_def split: sum.splits)




lemma statuses_append: "statuses (xs @ ys) = statuses xs @ statuses ys"
  by (induction xs) (simp_all split: sum.splits)






text \<open>
  C8, as stated, fails: the callback never reads the \<open>error\<close> field. The fallback status
  that \<open>getIndexingStatus\<close> returns on a network failure has \<open>error\<close> set, and after it
  the next tick issues another status request.
\<close>

theorem error_status_terminal_counterexample:
  "getIndexingStatus (Rejected (Error ''Failed to fetch'')) =
     Inr \<lparr>is_indexing = False, progress = 0,
          message = ''Failed to get indexing status: Failed to fetch'',
          stats = empty_stats, error = Some ''Failed to fetch''\<rparr> \<and>
   polling (run_page (in_turn [(getIndexingStatus (Rejected (Error ''Failed to fetch'')), Inr tree0)])
     (handleSourceLoaded initial_index_state)) \<and>
   calls (run_page (in_turn
     [(getIndexingStatus (Rejected (Error ''Failed to fetch'')), Inr tree0),
      (getIndexingStatus (Rejected (Error ''Failed to fetch'')), Inr tree0)])
     (handleSourceLoaded initial_index_state)) =
     [GetIndexingStatus, GetIndexingStatus]"
  by (simp add: getIndexingStatus_def fetch_json_def callback_events_def complete_def
      interval_fires_def status_resolved_def handleSourceLoaded_def initial_index_state_def Let_def)

text \<open>
  C8, amended. A poll response whose \<open>error\<close> is set is not terminal by itself: the
  interval stays active after it unless the same response has \<open>progress = 100\<close> and
  \<open>is_indexing\<close> false, and while it stays active the next tick issues a further status
  request.
\<close>

theorem error_status_keeps_polling:
  assumes "polling st" and "error s \<noteq> None"
  shows "polling (poll_tick (Inr s) fr st) = (\<not> (progress s = 100 \<and> \<not> is_indexing s)) \<and>
         (\<not> (progress s = 100 \<and> \<not> is_indexing s) \<longrightarrow>
            calls (poll_tick sr' fr' (poll_tick (Inr s) fr st)) =
              calls st @ [GetIndexingStatus, GetIndexingStatus] @
                (if complete sr' then [GetFileStructure] else []))"
proof (cases "complete (Inr s)")
  case True
  with assms(1) show ?thesis
    by (simp add: poll_tick_complete complete_def)
next
  case False
  with assms(1) have p: "polling (poll_tick (Inr s) fr st)"
    and c: "calls (poll_tick (Inr s) fr st) = calls st @ [GetIndexingStatus]"
    by (simp_all add: poll_tick_pending)
  have "calls (poll_tick sr' fr' (poll_tick (Inr s) fr st)) =
      calls st @ [GetIndexingStatus, GetIndexingStatus] @
        (if complete sr' then [GetFileStructure] else [])"
    using p c by (cases "complete sr'") (simp_all add: poll_tick_pending poll_tick_complete)
  with p False show ?thesis
    by (simp add: complete_def)
qed

theorem error_status_keeps_polling_witness:
  "polling (handleSourceLoaded initial_index_state) \<and>
   error (status40\<lparr>error := Some ''disk full''\<rparr>) \<noteq> None \<and>
   \<not> (progress (status40\<lparr>error := Some ''disk full''\<rparr>) = 100 \<and>
      \<not> is_indexing (status40\<lparr>error := Some ''disk full''\<rparr>)) \<and>
   polling (poll_tick (Inr (status40\<lparr>error := Some ''disk full''\<rparr>)) (Inr tree0)
      (handleSourceLoaded initial_index_state)) \<and>
   calls (poll_tick (Inr status40) (Inr tree0)
      (poll_tick (Inr (status40\<lparr>error := Some ''disk full''\<rparr>)) (Inr tree0)
         (handleSourceLoaded initial_index_state))) = [GetIndexingStatus, GetIndexingStatus]"
  using error_status_keeps_polling [of "handleSourceLoaded initial_index_state"
      "status40\<lparr>error := Some ''disk full''\<rparr>" "Inr tree0" "Inr status40" "Inr tree0"]
  by (simp add: handleSourceLoaded_def initial_index_state_def complete_def status40_def)


section \<open>Frames and transport reads\<close>

lemma js_split_sep: "LF \<notin> set q \<Longrightarrow> js_split (q @ LF # LF # rest) = q # js_split rest"
proof (induction q)
  case Nil
  show ?case by simp
next
  case (Cons c q)
  then have c: "c \<noteq> LF" and IH: "js_split (q @ LF # LF # rest) = q # js_split rest"
    by auto
  obtain d cs where e: "q @ LF # LF # rest = d # cs"
    by (cases "q @ LF # LF # rest") auto
  have "js_split ((c # q) @ LF # LF # rest) = js_split (c # d # cs)"
    using e by simp
  also have "\<dots> = add_head c (js_split (d # cs))"
    using c by simp
  also have "\<dots> = (c # q) # js_split rest"
    using IH e by simp
  finally show ?case .
qed

lemma LF_data: "LF \<notin> set ''data: ''"
  by (simp add: LF_def)

lemma js_split_record:
  "LF \<notin> set p \<Longrightarrow> js_split (record_text p @ rest) = (''data: '' @ p) # js_split rest"
  using js_split_sep [of "''data: '' @ p" rest] LF_data
  by (simp add: record_text_def)

lemma js_split_read_of:
  "list_all (\<lambda>p. LF \<notin> set p) ps \<Longrightarrow>
   js_split (read_of ps @ rest) = map (\<lambda>p. ''data: '' @ p) ps @ js_split rest"
proof (induction ps)
  case Nil
  show ?case by (simp add: read_of_def)
next
  case (Cons p ps)
  then have p: "LF \<notin> set p"
    and IH: "js_split (read_of ps @ rest) = map (\<lambda>p. ''data: '' @ p) ps @ js_split rest"
    by simp_all
  have "read_of (p # ps) @ rest = record_text p @ (read_of ps @ rest)"
    by (simp add: read_of_def)
  with js_split_record [OF p, of "read_of ps @ rest"] IH show ?case by simp
qed

lemma process_lines_append:
  "process_lines parse aid (xs @ ys) acc =
   process_lines parse aid ys (process_lines parse aid xs acc)"
  by (induction xs arbitrary: acc) simp_all

lemma process_line_empty: "process_line parse aid [] acc = acc"
  by (simp add: process_line_def)

lemma process_read_of:
  assumes "list_all (\<lambda>p. LF \<notin> set p) ps"
  shows "process_lines parse aid (js_split (read_of ps)) acc =
         process_lines parse aid (map (\<lambda>p. ''data: '' @ p) ps) acc"
  using js_split_read_of [OF assms, of "[]"]
  by (simp add: process_lines_append process_line_empty)

lemma process_reads_records:
  "list_all (list_all (\<lambda>p. LF \<notin> set p)) pss \<Longrightarrow>
   process_reads parse aid (map read_of pss) acc =
   process_lines parse aid (map (\<lambda>p. ''data: '' @ p) (concat pss)) acc"
proof (induction pss arbitrary: acc)
  case Nil
  show ?case by simp
next
  case (Cons ps pss)
  then show ?case
    by (simp add: process_read_of process_lines_append)
qed

text \<open>
  C4, as stated, fails: the loop keeps nothing from one read to the next. A record cut
  inside its payload is lost: the first part carries the prefix and does not parse, the
  second part has no prefix and is skipped. The same record in one read is applied.
\<close>

theorem split_record_counterexample:
  \<open>process_reads JSON_parse ''a1'' [''data: {"chu'', ''nk":"Hel"}\<newline>\<newline>''] (sample_chat, []) =
     (sample_chat\<lparr>chat_console := [''Error parsing SSE data: SyntaxError'']\<rparr>, []) \<and>
   process_reads JSON_parse ''a1'' [''data: {"chunk":"Hel"}\<newline>\<newline>''] (sample_chat, []) =
     (sample_chat\<lparr>messages := set_streamed ''a1'' ''Hel'' (messages sample_chat)\<rparr>, ''Hel'') \<and>
   map content (set_streamed ''a1'' ''Hel'' (messages sample_chat)) = [''q1'', ''Hel''] \<and>
   map content (messages sample_chat) = [''q1'', []]\<close>
  by code_simp

text \<open>
  C4, amended. The loop does not reassemble a record across transport reads: each read is
  split on the blank line and its pieces are parsed on their own. For every way of cutting
  a sequence of one-line \<open>data: <json>\<close> records into reads at record boundaries, the
  result (state and accumulated text) is identical to that of the unsplit sequence in a
  single read.
\<close>

theorem reads_at_record_boundaries:
  assumes "list_all (list_all (\<lambda>p. LF \<notin> set p)) pss"
  shows "process_reads parse aid (map read_of pss) acc =
         process_reads parse aid [read_of (concat pss)] acc"
proof -
  have "list_all (\<lambda>p. LF \<notin> set p) (concat pss)"
    using assms by (induction pss) simp_all
  then have "process_reads parse aid [read_of (concat pss)] acc =
      process_lines parse aid (map (\<lambda>p. ''data: '' @ p) (concat pss)) acc"
    by (simp add: process_read_of)
  with process_reads_records [OF assms] show ?thesis by simp
qed

theorem reads_at_record_boundaries_witness:
  \<open>list_all (list_all (\<lambda>p. LF \<notin> set p)) [[''{"chunk":"Hel"}''], [''{"chunk":"lo"}'', ''{"done":true}'']] \<and>
   process_reads JSON_parse ''a1''
     (map read_of [[''{"chunk":"Hel"}''], [''{"chunk":"lo"}'', ''{"done":true}'']]) (sample_chat, []) =
   process_reads JSON_parse ''a1''
     [read_of (concat [[''{"chunk":"Hel"}''], [''{"chunk":"lo"}'', ''{"done":true}'']])] (sample_chat, [])\<close>
proof -
  have h: \<open>list_all (list_all (\<lambda>p. LF \<notin> set p))
      [[''{"chunk":"Hel"}''], [''{"chunk":"lo"}'', ''{"done":true}'']]\<close>
    by (simp add: LF_def)
  from h reads_at_record_boundaries [OF h, of JSON_parse "''a1''" "(sample_chat, [])"]
  show ?thesis by blast
qed

section \<open>Frames that do not parse\<close>

lemma process_line_logged_before:
  "process_line parse aid l (logged_before c st, rt) =
     (logged_before c (fst (process_line parse aid l (st, rt))), snd (process_line parse aid l (st, rt)))"
  by (simp add: process_line_def process_data_def log_sse_def logged_before_def Let_def
      split: option.splits)

lemma process_lines_logged_before:
  "process_lines parse aid ls (logged_before c st, rt) =
     (logged_before c (fst (process_lines parse aid ls (st, rt))), snd (process_lines parse aid ls (st, rt)))"
proof (induction ls arbitrary: st rt)
  case Nil
  show ?case by simp
next
  case (Cons l ls)
  obtain st' rt' where e: "process_line parse aid l (st, rt) = (st', rt')"
    by (cases "process_line parse aid l (st, rt)") 
  show ?case
    using Cons.IH [of st' rt'] e by (simp add: process_line_logged_before)
qed

lemma logged_before_unlogged: "logged_before (chat_console st) (unlogged st) = st"
  by (simp add: logged_before_def unlogged_def)

lemma log_sse_unlogged: "log_sse w st = logged_before (chat_console st @ [''Error parsing SSE data: '' @ w]) (unlogged st)"
  by (simp add: logged_before_def unlogged_def log_sse_def)

lemma unlogged_logged_before: "unlogged (logged_before c st) = unlogged st"
  by (simp add: logged_before_def unlogged_def)

lemma process_lines_via_unlogged:
  "process_lines parse aid ls (st, rt) =
     (logged_before (chat_console st) (fst (process_lines parse aid ls (unlogged st, rt))),
      snd (process_lines parse aid ls (unlogged st, rt)))"
  using process_lines_logged_before [of parse aid ls "chat_console st" "unlogged st" rt]
  by (simp add: logged_before_unlogged)

lemma process_lines_after_log:
  "process_lines parse aid ls (log_sse w st, rt) =
     (logged_before (chat_console st @ [''Error parsing SSE data: '' @ w])
        (fst (process_lines parse aid ls (unlogged st, rt))),
      snd (process_lines parse aid ls (unlogged st, rt)))"
  using process_lines_logged_before [of parse aid ls
      "chat_console st @ [''Error parsing SSE data: '' @ w]" "unlogged st" rt]
  by (simp add: log_sse_unlogged)

lemma process_line_malformed:
  "malformed parse l \<Longrightarrow> process_line parse aid l acc = (log_sse ''SyntaxError'' (fst acc), snd acc)"
  by (simp add: malformed_def process_line_def)

lemma malformed_skipped:
  "snd (process_lines parse aid ls (st, rt)) =
     snd (process_lines parse aid (filter (\<lambda>l. \<not> malformed parse l) ls) (st, rt)) \<and>
   unlogged (fst (process_lines parse aid ls (st, rt))) =
     unlogged (fst (process_lines parse aid (filter (\<lambda>l. \<not> malformed parse l) ls) (st, rt))) \<and>
   length (chat_console (fst (process_lines parse aid ls (st, rt)))) =
     length (chat_console (fst (process_lines parse aid (filter (\<lambda>l. \<not> malformed parse l) ls) (st, rt))))
       + length (filter (malformed parse) ls)"
proof (induction ls arbitrary: st rt)
  case Nil
  show ?case by simp
next
  case (Cons l ls)
  show ?case
  proof (cases "malformed parse l")
    case True
    have a: "process_lines parse aid (l # ls) (st, rt) =
        process_lines parse aid ls (log_sse ''SyntaxError'' st, rt)"
      using True by (simp add: process_line_malformed)
    have b: "filter (\<lambda>l. \<not> malformed parse l) (l # ls) = filter (\<lambda>l. \<not> malformed parse l) ls"
      using True by simp
    define r0 where "r0 = process_lines parse aid ls (unlogged st, rt)"
    define w where "w = ''Error parsing SSE data: SyntaxError''"
    have full: "process_lines parse aid ls (log_sse ''SyntaxError'' st, rt) =
        (logged_before (chat_console st @ [w]) (fst r0), snd r0)"
      unfolding r0_def w_def by (simp add: process_lines_after_log)
    have mid: "process_lines parse aid ls (st, rt) =
        (logged_before (chat_console st) (fst r0), snd r0)"
      unfolding r0_def by (rule process_lines_via_unlogged)
    have s: "snd (process_lines parse aid ls (log_sse ''SyntaxError'' st, rt)) =
        snd (process_lines parse aid ls (st, rt))"
      by (simp add: full mid)
    have u: "unlogged (fst (process_lines parse aid ls (log_sse ''SyntaxError'' st, rt))) =
        unlogged (fst (process_lines parse aid ls (st, rt)))"
      by (simp add: full mid unlogged_logged_before)
    have n: "length (chat_console (fst (process_lines parse aid ls (log_sse ''SyntaxError'' st, rt)))) =
        length (chat_console (fst (process_lines parse aid ls (st, rt)))) + 1"
      by (simp add: full mid logged_before_def)
    show ?thesis
      unfolding a b s u n using Cons.IH [of st rt] True by simp
  next
    case False
    obtain st' rt' where e: "process_line parse aid l (st, rt) = (st', rt')"
      by (cases "process_line parse aid l (st, rt)")
    show ?thesis
      using Cons.IH [of st' rt'] False e by simp
  qed
qed


lemma es_onmessage_noted_before:
  "es_onmessage parse t (es_noted_before c ts st) = es_noted_before c ts (es_onmessage parse t st)"
  by (simp add: es_onmessage_def es_parse_failed_def es_noted_before_def
      split: option.splits)

lemma source_open_noted_before: "source_open k (es_noted_before c ts st) = source_open k st"
  by (simp add: source_open_def es_noted_before_def)

lemma source_open_onmessage: "source_open k (es_onmessage parse t st) = source_open k st"
  by (simp add: source_open_def es_onmessage_def es_parse_failed_def split: option.splits)

lemma es_run_messages_noted_before:
  "es_run parse (map (Message k) texts) (es_noted_before c ts st) =
     es_noted_before c ts (es_run parse (map (Message k) texts) st)"
proof (induction texts arbitrary: st)
  case Nil
  show ?case by simp
next
  case (Cons t texts)
  show ?case
    using Cons.IH [of "es_onmessage parse t st"] Cons.IH [of st]
    by (simp add: source_open_noted_before es_onmessage_noted_before)
qed

lemma es_noted_before_quiet: "es_noted_before (es_console st) (es_toasts st) (es_quiet st) = st"
  by (simp add: es_noted_before_def es_quiet_def)

lemma es_parse_failed_quiet:
  "es_parse_failed st =
     es_noted_before (es_console st @ [''Error parsing message:''])
       (es_toasts st @ [(''Error'', ''Failed to parse server response'')]) (es_quiet st)"
  by (simp add: es_noted_before_def es_quiet_def es_parse_failed_def)

lemma es_quiet_noted_before: "es_quiet (es_noted_before c ts st) = es_quiet st"
  by (simp add: es_noted_before_def es_quiet_def)

lemma es_onmessage_malformed: "parse t = None \<Longrightarrow> es_onmessage parse t st = es_parse_failed st"
  by (simp add: es_onmessage_def)

lemma es_malformed_skipped:
  "source_open k st \<Longrightarrow>
   es_quiet (es_run parse (map (Message k) texts) st) =
     es_quiet (es_run parse (map (Message k) (filter (\<lambda>t. parse t \<noteq> None) texts)) st) \<and>
   length (es_console (es_run parse (map (Message k) texts) st)) =
     length (es_console (es_run parse (map (Message k) (filter (\<lambda>t. parse t \<noteq> None) texts)) st))
       + length (filter (\<lambda>t. parse t = None) texts)"
proof (induction texts arbitrary: st)
  case Nil
  show ?case by simp
next
  case (Cons t texts)
  show ?case
  proof (cases "parse t = None")
    case True
    define r0 where "r0 = es_run parse (map (Message k) texts) (es_quiet st)"
    have full: "es_run parse (map (Message k) texts) (es_parse_failed st) =
        es_noted_before (es_console st @ [''Error parsing message:''])
          (es_toasts st @ [(''Error'', ''Failed to parse server response'')]) r0"
      unfolding r0_def
      using es_run_messages_noted_before [of parse k texts
          "es_console st @ [''Error parsing message:'']"
          "es_toasts st @ [(''Error'', ''Failed to parse server response'')]" "es_quiet st"]
      by (simp add: es_parse_failed_quiet [symmetric])
    have mid: "es_run parse (map (Message k) texts) st =
        es_noted_before (es_console st) (es_toasts st) r0"
      unfolding r0_def
      using es_run_messages_noted_before [of parse k texts "es_console st" "es_toasts st" "es_quiet st"]
      by (simp add: es_noted_before_quiet)
    have step: "es_run parse (map (Message k) (t # texts)) st =
        es_run parse (map (Message k) texts) (es_parse_failed st)"
      using True Cons.prems by (simp add: es_onmessage_malformed)
    have q: "es_quiet (es_run parse (map (Message k) (t # texts)) st) =
        es_quiet (es_run parse (map (Message k) texts) st)"
      unfolding step full mid by (simp add: es_quiet_noted_before)
    have n: "length (es_console (es_run parse (map (Message k) (t # texts)) st)) =
        length (es_console (es_run parse (map (Message k) texts) st)) + 1"
      unfolding step full mid by (simp add: es_noted_before_def)
    show ?thesis
      unfolding q n using Cons.IH [OF Cons.prems] True by simp
  next
    case False
    have o: "source_open k (es_onmessage parse t st)"
      using Cons.prems by (simp add: source_open_onmessage)
    show ?thesis
      using Cons.IH [OF o] False Cons.prems by simp
  qed
qed

lemma process_reads_lines:
  "process_reads parse aid reads acc = process_lines parse aid (concat (map js_split reads)) acc"
  by (induction reads arbitrary: acc) (simp_all add: process_lines_append)

text \<open>
  C6. In both chat components a frame whose payload does not parse is dropped with one
  console line and nothing else happens: the stream loop ends with the same accumulated
  text and the same state, console apart, as on the frames that parse, taken in their
  order, and the console holds one more line per malformed frame; the \<open>EventSource\<close>
  handler, run over the messages of an open source, ends in the same state, console and
  toasts apart, as on the messages that parse, again with one more console line per
  malformed message.
\<close>

theorem malformed_frames_discarded:
  "(snd (process_reads parse aid reads (cs, rt)) =
      snd (process_lines parse aid
             (filter (\<lambda>l. \<not> malformed parse l) (concat (map js_split reads))) (cs, rt)) \<and>
    unlogged (fst (process_reads parse aid reads (cs, rt))) =
      unlogged (fst (process_lines parse aid
             (filter (\<lambda>l. \<not> malformed parse l) (concat (map js_split reads))) (cs, rt))) \<and>
    length (chat_console (fst (process_reads parse aid reads (cs, rt)))) =
      length (chat_console (fst (process_lines parse aid
             (filter (\<lambda>l. \<not> malformed parse l) (concat (map js_split reads))) (cs, rt))))
        + length (filter (malformed parse) (concat (map js_split reads)))) \<and>
   (source_open k st \<longrightarrow>
    es_quiet (es_run parse (map (Message k) texts) st) =
      es_quiet (es_run parse (map (Message k) (filter (\<lambda>t. parse t \<noteq> None) texts)) st) \<and>
    length (es_console (es_run parse (map (Message k) texts) st)) =
      length (es_console (es_run parse (map (Message k) (filter (\<lambda>t. parse t \<noteq> None) texts)) st))
        + length (filter (\<lambda>t. parse t = None) texts))"
  using malformed_skipped [of parse aid "concat (map js_split reads)" cs rt]
    es_malformed_skipped [of k st parse texts]
  by (simp add: process_reads_lines)

theorem malformed_frames_discarded_witness:
  "source_open 0 sample_es \<and>
   snd (process_reads JSON_parse ''a1'' noisy_reads (sample_chat, [])) = ''Hello'' \<and>
   map content (messages (fst (process_reads JSON_parse ''a1'' noisy_reads (sample_chat, [])))) =
     [''q1'', ''Hello''] \<and>
   length (chat_console (fst (process_reads JSON_parse ''a1'' noisy_reads (sample_chat, [])))) = 2 \<and>
   map content (es_messages (es_run JSON_parse (map (Message 0) noisy_texts) sample_es)) =
     [''q1'', ''Hello''] \<and>
   length (es_console (es_run JSON_parse (map (Message 0) noisy_texts) sample_es)) = 2"
proof -
  have h: "source_open 0 sample_es"
    by code_simp
  have f: "filter (\<lambda>l. \<not> malformed JSON_parse l) (concat (map js_split noisy_reads)) =
      [''data: '' @ render_chunk ''Hel'', [], ''data: '' @ render_chunk ''lo'', []]"
    by code_simp
  have m: "length (filter (malformed JSON_parse) (concat (map js_split noisy_reads))) = 2"
    by code_simp
  have r: "process_lines JSON_parse ''a1''
      [''data: '' @ render_chunk ''Hel'', [], ''data: '' @ render_chunk ''lo'', []] (sample_chat, []) =
      (sample_chat\<lparr>messages := set_streamed ''a1'' ''Hello'' (messages sample_chat)\<rparr>, ''Hello'')"
    by code_simp
  have c: "map content (set_streamed ''a1'' ''Hello'' (messages sample_chat)) = [''q1'', ''Hello'']"
    by code_simp
  have g: "filter (\<lambda>t. JSON_parse t \<noteq> None) noisy_texts = [render_chunk ''Hel'', render_chunk ''lo'']"
    by code_simp
  have n: "length (filter (\<lambda>t. JSON_parse t = None) noisy_texts) = 2"
    by code_simp
  have e: "es_messages (es_quiet (es_run JSON_parse
        (map (Message 0) [render_chunk ''Hel'', render_chunk ''lo'']) sample_es)) =
      butlast (es_messages sample_es) @
        [(last (es_messages sample_es))\<lparr>content := ''Hello'', isLoading := Some False\<rparr>] \<and>
      es_console (es_run JSON_parse
        (map (Message 0) [render_chunk ''Hel'', render_chunk ''lo'']) sample_es) = [] \<and>
      map content (butlast (es_messages sample_es) @
        [(last (es_messages sample_es))\<lparr>content := ''Hello'', isLoading := Some False\<rparr>]) =
        [''q1'', ''Hello'']"
    by code_simp
  note t = malformed_frames_discarded [of JSON_parse "''a1''" noisy_reads sample_chat "[]" 0
      sample_es noisy_texts]
  note t' = t [unfolded f m g n r]
  have u: "unlogged (fst (process_reads JSON_parse ''a1'' noisy_reads (sample_chat, []))) =
      unlogged (sample_chat\<lparr>messages := set_streamed ''a1'' ''Hello'' (messages sample_chat)\<rparr>)"
    using t' by simp
  from u have "messages (unlogged (fst (process_reads JSON_parse ''a1'' noisy_reads (sample_chat, [])))) =
      messages (unlogged (sample_chat\<lparr>messages := set_streamed ''a1'' ''Hello'' (messages sample_chat)\<rparr>))"
    by (rule arg_cong)
  then have p1: "map content (messages (fst (process_reads JSON_parse ''a1'' noisy_reads (sample_chat, [])))) =
      [''q1'', ''Hello'']"
    using c by (simp add: unlogged_def)
  have p2: "snd (process_reads JSON_parse ''a1'' noisy_reads (sample_chat, [])) = ''Hello''"
    using t' by simp
  have p3: "length (chat_console (fst (process_reads JSON_parse ''a1'' noisy_reads (sample_chat, [])))) = 2"
    using t' by (simp add: sample_chat_def initial_chat_state_def)
  have q: "es_quiet (es_run JSON_parse (map (Message 0) noisy_texts) sample_es) =
      es_quiet (es_run JSON_parse (map (Message 0) [render_chunk ''Hel'', render_chunk ''lo'']) sample_es)"
    using t' h by blast
  from q have "es_messages (es_quiet (es_run JSON_parse (map (Message 0) noisy_texts) sample_es)) =
      es_messages (es_quiet (es_run JSON_parse
        (map (Message 0) [render_chunk ''Hel'', render_chunk ''lo'']) sample_es))"
    by (rule arg_cong)
  then have p4: "map content (es_messages (es_run JSON_parse (map (Message 0) noisy_texts) sample_es)) =
      [''q1'', ''Hello'']"
    using e by (simp add: es_quiet_def)
  have "length (es_console (es_run JSON_parse (map (Message 0) noisy_texts) sample_es)) =
      length (es_console (es_run JSON_parse (map (Message 0) [render_chunk ''Hel'', render_chunk ''lo'']) sample_es)) + 2"
    using t' h by blast
  then have p5: "length (es_console (es_run JSON_parse (map (Message 0) noisy_texts) sample_es)) = 2"
    using e by simp
  from h p1 p2 p3 p4 p5 show ?thesis by simp
qed

section \<open>Content fragments\<close>

lemma set_streamed_twice:
  "set_streamed aid t2 (set_streamed aid t1 ms) = set_streamed aid t2 ms"
  by (induction ms) (simp_all add: set_streamed_def)

lemma turn_set_streamed:
  "turn aid (set_streamed aid t ms) =
     map_option (\<lambda>m. m\<lparr>content := t, isLoading := Some False\<rparr>) (turn aid ms)"
  by (induction ms) (simp_all add: set_streamed_def turn_def)

lemma process_line_fragment:
  "fragment_of parse l = Some f \<Longrightarrow>
   process_line parse aid l (st, rt) =
     (st\<lparr>messages := set_streamed aid (rt @ f) (messages st)\<rparr>, rt @ f)"
  by (auto simp: fragment_of_def process_line_def process_data_def Let_def
      split: if_splits option.splits)

lemma process_line_no_fragment:
  "fragment_of parse l = None \<Longrightarrow>
   snd (process_line parse aid l (st, rt)) = rt \<and>
   messages (fst (process_line parse aid l (st, rt))) = messages st"
  by (auto simp: fragment_of_def process_line_def process_data_def log_sse_def Let_def
      split: if_splits option.splits)

lemma fragments_append: "fragments parse (xs @ ys) = fragments parse xs @ fragments parse ys"
  by (induction xs) (simp_all split: option.splits)

lemma process_lines_fragments:
  "snd (process_lines parse aid ls (st, rt)) = rt @ concat (fragments parse ls) \<and>
   messages (fst (process_lines parse aid ls (st, rt))) =
     (if fragments parse ls = [] then messages st
      else set_streamed aid (rt @ concat (fragments parse ls)) (messages st))"
proof (induction ls arbitrary: st rt)
  case Nil
  show ?case by simp
next
  case (Cons l ls)
  show ?case
  proof (cases "fragment_of parse l")
    case None
    obtain st' rt' where e: "process_line parse aid l (st, rt) = (st', rt')"
      by (cases "process_line parse aid l (st, rt)")
    with process_line_no_fragment [OF None, of aid st rt]
    have "rt' = rt" and "messages st' = messages st"
      by simp_all
    with Cons.IH [of st' rt'] e None show ?thesis
      by simp
  next
    case (Some f)
    note e = process_line_fragment [OF Some, of aid st rt]
    from Cons.IH [of "st\<lparr>messages := set_streamed aid (rt @ f) (messages st)\<rparr>" "rt @ f"] e Some
    show ?thesis
      by (simp add: set_streamed_twice)
  qed
qed

text \<open>
  C9. The frames \<open>data: {"chunk":"Hel"}\<close>, \<open>data: {"chunk":"lo"}\<close>,
  \<open>data: {"done":true}\<close>, in the \<open>data: <json>\<close> format of the stream, leave the
  turn with content \<open>Hello\<close> and not loading, after the loop over the three frames and
  at the end of \<open>handleSendMessage\<close> on a stream that delivers them as three records. In
  general, for every parser and every sequence of reads, the accumulated text is the
  concatenation in arrival order of the fragments of the frames, the targeted turn holds
  that text and is not loading as soon as one fragment has arrived, and the fragment of a
  frame is appended after the text of all frames before it.
\<close>

theorem fragments_appended_in_order:
  \<open>(process_lines JSON_parse ''a1''
      [''data: {"chunk":"Hel"}'', ''data: {"chunk":"lo"}'', ''data: {"done":true}'']
      (sample_chat, []) =
      (sample_chat\<lparr>messages :=
         [\<lparr>msg_id = ''u1'', content = ''q1'', role = User, timestamp = 1, isLoading = None,
            relevantFiles = None\<rparr>,
          \<lparr>msg_id = ''a1'', content = ''Hello'', role = Assistant, timestamp = 1,
            isLoading = Some False, relevantFiles = None\<rparr>]\<rparr>, ''Hello'') \<and>
    turn ''a1'' (messages (handleSendMessage JSON_parse
      (sample_env ''u1'' ''a1'' [''data: {"chunk":"Hel"}\<newline>\<newline>'', ''data: {"chunk":"lo"}\<newline>\<newline>'',
         ''data: {"done":true}\<newline>\<newline>''])
      (initial_chat_state\<lparr>input := ''q1''\<rparr>))) =
      Some \<lparr>msg_id = ''a1'', content = ''Hello'', role = Assistant, timestamp = 1,
        isLoading = Some False, relevantFiles = None\<rparr>) \<and>
   (snd (process_reads parse aid reads (st, rt)) =
      rt @ concat (fragments parse (concat (map js_split reads))) \<and>
    turn aid (messages (fst (process_reads parse aid reads (st, rt)))) =
      (if fragments parse (concat (map js_split reads)) = [] then turn aid (messages st)
       else map_option
         (\<lambda>m. m\<lparr>content := rt @ concat (fragments parse (concat (map js_split reads))),
                 isLoading := Some False\<rparr>)
         (turn aid (messages st))) \<and>
    snd (process_lines parse aid (frames @ [frame]) (st, rt)) =
      snd (process_lines parse aid frames (st, rt)) @
        (case fragment_of parse frame of None \<Rightarrow> [] | Some f \<Rightarrow> f))\<close>
proof -
  have a: \<open>process_lines JSON_parse ''a1''
      [''data: {"chunk":"Hel"}'', ''data: {"chunk":"lo"}'', ''data: {"done":true}'']
      (sample_chat, []) =
      (sample_chat\<lparr>messages :=
         [\<lparr>msg_id = ''u1'', content = ''q1'', role = User, timestamp = 1, isLoading = None,
            relevantFiles = None\<rparr>,
          \<lparr>msg_id = ''a1'', content = ''Hello'', role = Assistant, timestamp = 1,
            isLoading = Some False, relevantFiles = None\<rparr>]\<rparr>, ''Hello'')\<close>
    by code_simp
  have b: \<open>turn ''a1'' (messages (handleSendMessage JSON_parse
      (sample_env ''u1'' ''a1'' [''data: {"chunk":"Hel"}\<newline>\<newline>'', ''data: {"chunk":"lo"}\<newline>\<newline>'',
         ''data: {"done":true}\<newline>\<newline>''])
      (initial_chat_state\<lparr>input := ''q1''\<rparr>))) =
      Some \<lparr>msg_id = ''a1'', content = ''Hello'', role = Assistant, timestamp = 1,
        isLoading = Some False, relevantFiles = None\<rparr>\<close>
    by code_simp
  note c = process_lines_fragments [of parse aid "concat (map js_split reads)" st rt]
  have d: "turn aid (messages (fst (process_reads parse aid reads (st, rt)))) =
      (if fragments parse (concat (map js_split reads)) = [] then turn aid (messages st)
       else map_option
         (\<lambda>m. m\<lparr>content := rt @ concat (fragments parse (concat (map js_split reads))),
                 isLoading := Some False\<rparr>)
         (turn aid (messages st)))"
    using c by (simp add: process_reads_lines turn_set_streamed)
  have e: "snd (process_lines parse aid (frames @ [frame]) (st, rt)) =
      snd (process_lines parse aid frames (st, rt)) @
        (case fragment_of parse frame of None \<Rightarrow> [] | Some f \<Rightarrow> f)"
    using process_lines_fragments [of parse aid "frames @ [frame]" st rt]
      process_lines_fragments [of parse aid frames st rt]
    by (simp add: fragments_append split: option.splits)
  have c': "snd (process_reads parse aid reads (st, rt)) =
      rt @ concat (fragments parse (concat (map js_split reads)))"
    using c by (simp add: process_reads_lines)
  show ?thesis
    using a b c' d e by - (intro conjI; assumption)
qed

section \<open>Failure and completion frames\<close>

text \<open>
  C3. On a stream whose only frame is \<open>{"error":"boom"}\<close> the throw of the \<open>error\<close>
  branch is caught by the \<open>catch\<close> around the frame, which logs it as a parse error: the
  turn keeps its empty content and stays loading. After a fragment \<open>A\<close> the content stays
  \<open>A\<close>, and a fragment \<open>B\<close> arriving after the failure is still appended. A failed read,
  by contrast, reaches the outer \<open>catch\<close>, which replaces the content by the failure
  message and clears \<open>isLoading\<close>.
\<close>

theorem error_frame_swallowed:
  \<open>turn ''a1'' (messages (handleSendMessage JSON_parse
       (sample_env ''u1'' ''a1'' [''data: {"error":"boom"}\<newline>\<newline>''])
       (initial_chat_state\<lparr>input := ''q1''\<rparr>))) =
     Some \<lparr>msg_id = ''a1'', content = [], role = Assistant, timestamp = 1,
       isLoading = Some True, relevantFiles = None\<rparr> \<and>
   chat_console (handleSendMessage JSON_parse
       (sample_env ''u1'' ''a1'' [''data: {"error":"boom"}\<newline>\<newline>''])
       (initial_chat_state\<lparr>input := ''q1''\<rparr>)) = [''Error parsing SSE data: boom''] \<and>
   turn ''a1'' (messages (handleSendMessage JSON_parse
       (sample_env ''u1'' ''a1'' [''data: {"chunk":"A"}\<newline>\<newline>'', ''data: {"error":"boom"}\<newline>\<newline>'',
          ''data: {"chunk":"B"}\<newline>\<newline>''])
       (initial_chat_state\<lparr>input := ''q1''\<rparr>))) =
     Some \<lparr>msg_id = ''a1'', content = ''AB'', role = Assistant, timestamp = 1,
       isLoading = Some False, relevantFiles = None\<rparr> \<and>
   turn ''a1'' (messages (handleSendMessage JSON_parse
       ((sample_env ''u1'' ''a1'' [])\<lparr>stream_fetch :=
          Response 200 (Inr (Stream [''data: {"chunk":"A"}\<newline>\<newline>''] (Some (Error ''network error''))))\<rparr>)
       (initial_chat_state\<lparr>input := ''q1''\<rparr>))) =
     Some \<lparr>msg_id = ''a1'', content = ''Sorry, I couldn't process your request. network error'',
       role = Assistant, timestamp = 1, isLoading = Some False, relevantFiles = None\<rparr>\<close>
  by code_simp

text \<open>
  C7. On a stream that completes without a content fragment, by a \<open>done\<close> frame or by
  the end of the transport alone, the \<open>finally\<close> block clears the component's flag, and
  the placeholder turn stays loading.
\<close>

theorem completed_stream_leaves_turn_loading:
  \<open>turn ''a1'' (messages (handleSendMessage JSON_parse
       (sample_env ''u1'' ''a1'' [''data: {"done":true}\<newline>\<newline>''])
       (initial_chat_state\<lparr>input := ''q1''\<rparr>))) =
     Some \<lparr>msg_id = ''a1'', content = [], role = Assistant, timestamp = 1,
       isLoading = Some True, relevantFiles = None\<rparr> \<and>
   \<not> chat_isLoading (handleSendMessage JSON_parse
       (sample_env ''u1'' ''a1'' [''data: {"done":true}\<newline>\<newline>''])
       (initial_chat_state\<lparr>input := ''q1''\<rparr>)) \<and>
   turn ''a1'' (messages (handleSendMessage JSON_parse (sample_env ''u1'' ''a1'' [])
       (initial_chat_state\<lparr>input := ''q1''\<rparr>))) =
     Some \<lparr>msg_id = ''a1'', content = [], role = Assistant, timestamp = 1,
       isLoading = Some True, relevantFiles = None\<rparr>\<close>
  by code_simp

section \<open>Addressing of the turn\<close>

text \<open>The stream loop changes the messages that carry the placeholder's id and no other,
  wherever they stand in the list.\<close>

lemma process_line_other_turns:
  "filter (\<lambda>m. msg_id m \<noteq> aid) (messages (fst (process_line parse aid l (st, rt)))) =
     filter (\<lambda>m. msg_id m \<noteq> aid) (messages st) \<and>
   map msg_id (messages (fst (process_line parse aid l (st, rt)))) = map msg_id (messages st)"
proof -
  have a: "filter (\<lambda>m. msg_id m \<noteq> aid) (set_streamed aid t ms) = filter (\<lambda>m. msg_id m \<noteq> aid) ms" for t ms
    by (induction ms) (simp_all add: set_streamed_def)
  have b: "map msg_id (set_streamed aid t ms) = map msg_id ms" for t ms
    by (induction ms) (simp_all add: set_streamed_def)
  show ?thesis
    by (simp add: process_line_def process_data_def log_sse_def Let_def a b split: option.splits)
qed

lemma process_reads_other_turns:
  "filter (\<lambda>m. msg_id m \<noteq> aid) (messages (fst (process_reads parse aid reads (st, rt)))) =
     filter (\<lambda>m. msg_id m \<noteq> aid) (messages st) \<and>
   map msg_id (messages (fst (process_reads parse aid reads (st, rt)))) = map msg_id (messages st)"
proof -
  have "filter (\<lambda>m. msg_id m \<noteq> aid) (messages (fst (process_lines parse aid ls (st, rt)))) =
     filter (\<lambda>m. msg_id m \<noteq> aid) (messages st) \<and>
   map msg_id (messages (fst (process_lines parse aid ls (st, rt)))) = map msg_id (messages st)" for ls
  proof (induction ls arbitrary: st rt)
    case Nil
    show ?case by simp
  next
    case (Cons l ls)
    obtain st' rt' where e: "process_line parse aid l (st, rt) = (st', rt')"
      by (cases "process_line parse aid l (st, rt)")
    from process_line_other_turns [of aid parse l st rt] Cons.IH [of st' rt'] e
    show ?case by simp
  qed
  then show ?thesis
    by (simp add: process_reads_lines)
qed


text \<open>
  C1. The \<open>EventSource\<close> component appends a fragment to the last message of the list.
  After a failure frame has re-enabled the input and a second question was sent, a late
  fragment of the first stream, which is still open, lands in the second answer; the first
  answer is untouched.
\<close>

theorem late_fragment_lands_in_other_turn:
  \<open>map (\<lambda>m. (msg_id m, content m, isLoading m))
     (es_messages (es_run JSON_parse
        [Typed ''q1'', Send 1000 1000 1000 1000, Message 0 ''{"error":"boom"}'',
         Typed ''q2'', Send 2000 2000 2000 2000, Message 0 ''{"chunk":"late"}'']
        initial_es_state)) =
   [(''1000'', ''q1'', Some False), (''1001'', [], Some True),
    (''2000'', ''q2'', Some False), (''2001'', ''late'', Some False)] \<and>
   es_sources (es_run JSON_parse
        [Typed ''q1'', Send 1000 1000 1000 1000, Message 0 ''{"error":"boom"}'',
         Typed ''q2'', Send 2000 2000 2000 2000] initial_es_state) =
   [(''q1'', True), (''q2'', True)]\<close>
  by code_simp

section \<open>One query at a time\<close>

text \<open>While the component is loading, sending and typing change nothing.\<close>

lemma es_send_while_loading:
  "es_isLoading st \<Longrightarrow> es_step parse (Send now1 date1 now2 date2) st = st"
  by (simp add: es_handleSendMessage_def)

lemma es_type_while_loading: "es_isLoading st \<Longrightarrow> es_step parse (Typed s) st = st"
  by simp

text \<open>
  C5. In both components a completion without a content fragment leaves the placeholder
  loading while the input is enabled again; a second question then yields two assistant
  turns that are loading at once.
\<close>

theorem two_turns_loading:
  \<open>map msg_id (loading_turns (es_messages (es_run JSON_parse
        [Typed ''q1'', Send 1000 1000 1000 1000, Message 0 ''{"done":true}'',
         Typed ''q2'', Send 2000 2000 2000 2000] initial_es_state))) = [''1001'', ''2001''] \<and>
   map msg_id (loading_turns (messages
      (handleSendMessage JSON_parse (sample_env ''u2'' ''a2'' [''data: {"done":true}\<newline>\<newline>''])
        ((handleSendMessage JSON_parse (sample_env ''u1'' ''a1'' [''data: {"done":true}\<newline>\<newline>''])
           (initial_chat_state\<lparr>input := ''q1''\<rparr>))\<lparr>input := ''q2''\<rparr>)))) = [''a1'', ''a2'']\<close>
  by code_simp

end
